theory Spec2Isabelle
  imports
    Complex_Main
    "HOL-Library.Word"
    "HOL-Library.Signed_Division"
    "HOL-Library.AList"
    "HOL-Library.Sublist"
    "HOL-Library.Char_ord"
    "HOL-Library.List_Lexorder"
begin

section \<open>Data model (backend/starfish/types.go)\<close>

text \<open>
  Go strings are byte sequences, as \<^typ>\<open>string\<close> is. The integer fields of an entry are
  only read, compared and printed by the code below, so they are \<^typ>\<open>int\<close>; the hit
  counter of a cached result is incremented and is a 64-bit word.
\<close>

record StarfishZone =
  zone_ID :: int
  zone_Name :: string
  RelativePath :: string

record StarfishEntry =
  ID :: int
  Filename :: string
  ParentPath :: string
  FullPath :: string
  Type :: int
  Size :: int
  Mode :: string
  UID :: int
  GID :: int
  CreateTimeUnix :: int
  ModifyTimeUnix :: int
  AccessTimeUnix :: int
  Volume :: string
  Inode :: int
  SizeUnit :: string
  TagsExplicitStr :: string
  TagsInheritedStr :: string
  Zones :: "StarfishZone list"

record StarfishQueryResponse =
  Entries :: "StarfishEntry list"
  Total :: int

text \<open>
  A \<open>time.Time\<close> built by the entry accessors is either the zero time \<open>time.Time{}\<close> or
  \<open>time.Unix(s, 0)\<close>.
\<close>

datatype gotime = ZeroTime | Unix int

definition GetModifyTime :: "StarfishEntry \<Rightarrow> gotime" where
  "GetModifyTime e = (if ModifyTimeUnix e > 0 then Unix (ModifyTimeUnix e) else ZeroTime)"

definition GetCreateTime :: "StarfishEntry \<Rightarrow> gotime" where
  "GetCreateTime e = (if CreateTimeUnix e > 0 then Unix (CreateTimeUnix e) else ZeroTime)"

definition GetAccessTime :: "StarfishEntry \<Rightarrow> gotime" where
  "GetAccessTime e = (if AccessTimeUnix e > 0 then Unix (AccessTimeUnix e) else ZeroTime)"

section \<open>Result cache (backend/starfish/cache.go)\<close>

text \<open>
  The clock of the cache is a point on one time line, in nanoseconds; \<open>time.Now()\<close> is the
  argument \<open>now\<close> of every operation that reads the clock, and \<open>t.After(u)\<close> is \<open>u < t\<close>.
  A \<open>*StarfishQueryResponse\<close> is an option (\<open>None\<close> is the nil pointer).

  The Go map \<open>map[string]*CachedResult\<close> is an association list with one pair per key:
  \<open>Stats\<close> ranges over the map and counts, which a list does in some order, and the
  counts do not depend on that order.

  The metrics manager is an external collaborator. What the cache does to it is recorded:
  \<open>None\<close> is the nil manager, \<open>Some calls\<close> holds the calls of \<open>Add\<close> made so far.
\<close>

type_synonym time = int

definition After :: "time \<Rightarrow> time \<Rightarrow> bool" where
  "After t u = (u < t)"

type_synonym metric = "string \<times> 64 word \<times> (string \<times> string) list"

record CachedResult =
  Data :: "StarfishQueryResponse option"
  CachedAt :: time
  ExpiresAt :: time
  VolumeAndPath :: string
  HitCount :: "64 word"

record QueryCache =
  data :: "(string \<times> CachedResult) list"
  defaultTTL :: int
  metricsManager :: "metric list option"

definition Add :: "string \<Rightarrow> 64 word \<Rightarrow> (string \<times> string) list \<Rightarrow> metric list option \<Rightarrow> metric list option" where
  "Add name v tags mm = (case mm of None \<Rightarrow> None | Some calls \<Rightarrow> Some (calls @ [(name, v, tags)]))"

definition NewQueryCache :: "int \<Rightarrow> metric list option \<Rightarrow> QueryCache" where
  "NewQueryCache ttl mm = \<lparr>data = [], defaultTTL = ttl, metricsManager = mm\<rparr>"

definition Get :: "QueryCache \<Rightarrow> time \<Rightarrow> string \<Rightarrow> StarfishQueryResponse option \<times> QueryCache" where
  "Get c now key =
     (case map_of (data c) key of
        None \<Rightarrow>
          (None, c\<lparr>metricsManager :=
                     Add ''starfish_cache_miss'' 1 [(''cache_key'', key)] (metricsManager c)\<rparr>)
      | Some cached \<Rightarrow>
          if After now (ExpiresAt cached) then
            (None, c\<lparr>data := AList.delete key (data c),
                      metricsManager :=
                        Add ''starfish_cache_miss'' 1
                          [(''cache_key'', key), (''reason'', ''expired'')] (metricsManager c)\<rparr>)
          else
            (let hit = cached\<lparr>HitCount := HitCount cached + 1\<rparr> in
               (Data hit,
                c\<lparr>data := AList.update key hit (data c),
                  metricsManager :=
                    Add ''starfish_cache_hit_count'' (HitCount hit) [(''cache_key'', key)]
                      (Add ''starfish_cache_hit'' 1 [(''cache_key'', key)] (metricsManager c))\<rparr>)))"

definition Set :: "QueryCache \<Rightarrow> time \<Rightarrow> string \<Rightarrow> StarfishQueryResponse option \<Rightarrow> string \<Rightarrow> QueryCache" where
  "Set c now key d volumeAndPath =
     (let entries = AList.update key
            \<lparr>Data = d, CachedAt = now, ExpiresAt = now + defaultTTL c,
             VolumeAndPath = volumeAndPath, HitCount = 0\<rparr> (data c)
      in c\<lparr>data := entries,
           metricsManager :=
             Add ''starfish_cache_entries'' (of_nat (length entries)) []
               (Add ''starfish_cache_set'' 1 [(''cache_key'', key)] (metricsManager c))\<rparr>)"

definition Invalidate :: "QueryCache \<Rightarrow> string \<Rightarrow> QueryCache" where
  "Invalidate c key =
     (case map_of (data c) key of
        None \<Rightarrow> c
      | Some _ \<Rightarrow>
          (let entries = AList.delete key (data c)
           in c\<lparr>data := entries,
                metricsManager :=
                  Add ''starfish_cache_entries'' (of_nat (length entries)) []
                    (Add ''starfish_cache_invalidate'' 1 [(''cache_key'', key)]
                       (metricsManager c))\<rparr>))"

text \<open>\<open>Clear\<close> has no result in the source: the number of entries removed only goes to the
  metrics manager, when there is one.\<close>

definition Clear :: "QueryCache \<Rightarrow> unit \<times> QueryCache" where
  "Clear c =
     (let clearedCount = length (data c)
      in ((), c\<lparr>data := [],
                metricsManager :=
                  Add ''starfish_cache_entries'' 0 []
                    (Add ''starfish_cache_clear'' (of_nat clearedCount) []
                       (metricsManager c))\<rparr>))"

text \<open>
  The statistics map of \<open>Stats\<close>, one field per key. The ratio is a \<open>float64\<close>; the
  conversion of an integer to \<open>float64\<close> and the \<open>float64\<close> quotient belong to the Go
  runtime and are the two components of \<open>float64_rt\<close>.
\<close>

record 'f float64_rt =
  float64 :: "int \<Rightarrow> 'f"
  quotient :: "'f \<Rightarrow> 'f \<Rightarrow> 'f"

record 'f CacheStats =
  total_entries :: nat
  valid_entries :: nat
  expired_entries :: nat
  total_hits :: "64 word"
  cache_hit_ratio :: 'f

text \<open>The loop of \<open>Stats\<close> over the map, with its three running variables
  \<open>(valid, expired, totalHits)\<close>.\<close>

fun stats_loop :: "time \<Rightarrow> (string \<times> CachedResult) list \<Rightarrow> nat \<times> nat \<times> 64 word \<Rightarrow> nat \<times> nat \<times> 64 word" where
  "stats_loop now [] acc = acc"
| "stats_loop now ((k, cached) # rest) (valid, expired, totalHits) =
     (if After now (ExpiresAt cached)
      then stats_loop now rest (valid, expired + 1, totalHits)
      else stats_loop now rest (valid + 1, expired, totalHits + HitCount cached))"

definition Stats :: "'f float64_rt \<Rightarrow> QueryCache \<Rightarrow> time \<Rightarrow> 'f CacheStats" where
  "Stats rt c now =
     (case stats_loop now (data c) (0, 0, 0) of
        (valid, expired, totalHits) \<Rightarrow>
          \<lparr>total_entries = length (data c),
           valid_entries = valid,
           expired_entries = expired,
           total_hits = totalHits,
           cache_hit_ratio =
             (if length (data c) > 0
              then quotient rt (float64 rt (sint totalHits)) (float64 rt (int (length (data c))))
              else float64 rt 0)\<rparr>)"

text \<open>The exact quotient, which is the \<open>float64\<close> one on the small integers of the
  examples below.\<close>

definition exact_rt :: "real float64_rt" where
  "exact_rt = \<lparr>float64 = real_of_int, quotient = (/)\<rparr>"

section \<open>Go library functions used by the listing converter\<close>

text \<open>
  The functions of the Go packages \<open>strings\<close>, \<open>fmt\<close> and \<open>path/filepath\<close> (Unix) that
  the converter calls, written out on byte strings. \<open>strings.Index\<close> returns the index of
  the first occurrence, or \<open>-1\<close>.
\<close>

definition strings_HasPrefix :: "string \<Rightarrow> string \<Rightarrow> bool" where
  "strings_HasPrefix s p = prefix p s"

definition strings_TrimPrefix :: "string \<Rightarrow> string \<Rightarrow> string" where
  "strings_TrimPrefix s p = (if strings_HasPrefix s p then drop (length p) s else s)"

fun strings_Index :: "string \<Rightarrow> string \<Rightarrow> int" where
  "strings_Index [] sep = (if sep = [] then 0 else -1)"
| "strings_Index (c # cs) sep =
     (if prefix sep (c # cs) then 0
      else (let r = strings_Index cs sep in if r < 0 then -1 else r + 1))"

text \<open>\<open>strings.Split(s, sep)\<close> for a separator of one byte.\<close>

fun split_byte :: "char \<Rightarrow> string \<Rightarrow> string list" where
  "split_byte sep [] = [[]]"
| "split_byte sep (c # cs) =
     (if c = sep then [] # split_byte sep cs
      else (case split_byte sep cs of
              [] \<Rightarrow> [[c]]
            | w # ws \<Rightarrow> (c # w) # ws))"

fun strings_Join :: "string list \<Rightarrow> string \<Rightarrow> string" where
  "strings_Join [] sep = []"
| "strings_Join [x] sep = x"
| "strings_Join (x # y # zs) sep = x @ sep @ strings_Join (y # zs) sep"

text \<open>\<open>fmt.Sprintf("%d", n)\<close>.\<close>

function show_nat :: "nat \<Rightarrow> string" where
  "show_nat n =
     (if n < 10 then [char_of (48 + n)]
      else show_nat (n div 10) @ [char_of (48 + n mod 10)])"
  by pat_completeness auto
termination
  by (relation "measure id") auto

declare show_nat.simps [simp del]

definition show_int :: "int \<Rightarrow> string" where
  "show_int i = (if i < 0 then CHR ''-'' # show_nat (nat (- i)) else show_nat (nat i))"

text \<open>
  \<open>filepath.Clean\<close> works on the elements between slashes: empty elements and \<open>.\<close> are
  dropped, \<open>..\<close> removes the element before it, is dropped at the root, and is kept at the
  start of a relative path. \<open>clean_elems\<close> holds the elements written so far, last first.
\<close>

fun clean_elems :: "bool \<Rightarrow> string list \<Rightarrow> string list \<Rightarrow> string list" where
  "clean_elems rooted out [] = out"
| "clean_elems rooted out (e # es) =
     (if e = [] \<or> e = ''.'' then clean_elems rooted out es
      else if e = ''..'' then
        (case out of
           [] \<Rightarrow> if rooted then clean_elems rooted [] es else clean_elems rooted [''..''] es
         | written # earlier \<Rightarrow>
             if written = ''..'' then clean_elems rooted (''..'' # out) es
             else clean_elems rooted earlier es)
      else clean_elems rooted (e # out) es)"

definition filepath_Clean :: "string \<Rightarrow> string" where
  "filepath_Clean path =
     (if path = [] then ''.''
      else
        (let rooted = (hd path = CHR ''/'');
             out = strings_Join (rev (clean_elems rooted [] (split_byte CHR ''/'' path))) ''/''
         in if rooted then CHR ''/'' # out else if out = [] then ''.'' else out))"

text \<open>\<open>filepath.Join\<close>: leading empty elements are ignored, the rest is joined with
  slashes and cleaned; the result is empty when every element is.\<close>

fun filepath_Join :: "string list \<Rightarrow> string" where
  "filepath_Join [] = []"
| "filepath_Join (e # es) =
     (if e = [] then filepath_Join es else filepath_Clean (strings_Join (e # es) ''/''))"

section \<open>Listing converter (ListObjects and ListObjectsV2)\<close>

record PathRewriteRule =
  Bucket :: string
  Pattern :: string
  Template :: string
  Priority :: int

record PathRewriteConfig =
  Rules :: "PathRewriteRule list"

text \<open>The fields of the backend that the core reads. \<open>pathRewriteConfig\<close> is a pointer:
  \<open>None\<close> is nil.\<close>

record StarfishBackend =
  apiEndpoint :: string
  bearerToken :: string
  fileServerURL :: string
  cache :: QueryCache
  collections :: "(string \<times> string) list"
  pathRewriteConfig :: "PathRewriteConfig option"

record Object =
  Key :: string
  obj_Size :: int
  LastModified :: gotime
  ETag :: string

record ListObjectsResult =
  Contents :: "Object list"
  CommonPrefixes :: "string list"
  IsTruncated :: bool
  MaxKeys :: "32 word"
  Name :: string
  Prefix :: string
  Delimiter :: string

record ListObjectsV2Result = ListObjectsResult +
  KeyCount :: "32 word"
  StartAfter :: string

text \<open>A run-time panic of Go: slicing a string beyond its length.\<close>

datatype panic = SliceBoundsOutOfRange

definition buildObjectKeyFromEntryWithBucket :: "StarfishBackend \<Rightarrow> StarfishEntry \<Rightarrow> string \<Rightarrow> string" where
  "buildObjectKeyFromEntryWithBucket b entry bucket =
     (if FullPath entry \<noteq> [] then strings_TrimPrefix (FullPath entry) ''/''
      else if ParentPath entry \<noteq> [] then filepath_Join [ParentPath entry, Filename entry]
      else Filename entry)"

definition shouldBeCommonPrefix :: "string \<Rightarrow> string \<Rightarrow> string \<Rightarrow> bool" where
  "shouldBeCommonPrefix objectKey pfx delimiter =
     (if \<not> strings_HasPrefix objectKey pfx then False
      else
        (let afterPrefix = drop (length pfx) objectKey;
             delimiterIndex = strings_Index afterPrefix delimiter
         in if delimiterIndex = -1 then False
            else delimiterIndex + int (length delimiter) < int (length afterPrefix)))"

definition getCommonPrefix :: "string \<Rightarrow> string \<Rightarrow> string \<Rightarrow> panic + string" where
  "getCommonPrefix objectKey pfx delimiter =
     (if length objectKey < length pfx then Inl SliceBoundsOutOfRange
      else
        (let afterPrefix = drop (length pfx) objectKey;
             delimiterIndex = strings_Index afterPrefix delimiter
         in if delimiterIndex = -1 then Inr pfx
            else Inr (pfx @ take (nat (delimiterIndex + int (length delimiter))) afterPrefix)))"

fun containsCommonPrefix :: "string list \<Rightarrow> string \<Rightarrow> bool" where
  "containsCommonPrefix [] newPrefix = False"
| "containsCommonPrefix (cp # cps) newPrefix =
     (if cp = newPrefix then True else containsCommonPrefix cps newPrefix)"

definition generateETag :: "StarfishEntry \<Rightarrow> string" where
  "generateETag entry =
     ''\"'' @ show_int (Size entry) @ ''-'' @ show_int (ModifyTimeUnix entry) @ ''\"''"

text \<open>The local variables of the conversion loop.\<close>

record conv_state =
  contents :: "Object list"
  commonPrefixes :: "string list"
  isTruncated :: bool
  count :: int

definition conv_init :: conv_state where
  "conv_init = \<lparr>contents = [], commonPrefixes = [], isTruncated = False, count = 0\<rparr>"

text \<open>
  The loop over \<open>starfishResult.Entries\<close>, which is the same text in both conversions.
  \<open>break\<close> returns the state, \<open>continue\<close> goes on with the rest.
\<close>

fun convert_loop ::
  "StarfishBackend \<Rightarrow> string \<Rightarrow> string \<Rightarrow> string \<Rightarrow> string \<Rightarrow> int \<Rightarrow>
     StarfishEntry list \<Rightarrow> conv_state \<Rightarrow> panic + conv_state" where
  "convert_loop b bucket pfx delimiter startAfter maxKeys [] st = Inr st"
| "convert_loop b bucket pfx delimiter startAfter maxKeys (entry # rest) st =
     (if maxKeys > 0 \<and> count st \<ge> maxKeys then Inr (st\<lparr>isTruncated := True\<rparr>)
      else
        (let objectKey = buildObjectKeyFromEntryWithBucket b entry bucket in
           if startAfter \<noteq> [] \<and> objectKey \<le> startAfter then
             convert_loop b bucket pfx delimiter startAfter maxKeys rest st
           else if delimiter \<noteq> [] \<and> shouldBeCommonPrefix objectKey pfx delimiter then
             (case getCommonPrefix objectKey pfx delimiter of
                Inl p \<Rightarrow> Inl p
              | Inr commonPrefix \<Rightarrow>
                  convert_loop b bucket pfx delimiter startAfter maxKeys rest
                    (if \<not> containsCommonPrefix (commonPrefixes st) commonPrefix
                     then st\<lparr>commonPrefixes := commonPrefixes st @ [commonPrefix]\<rparr>
                     else st))
           else
             convert_loop b bucket pfx delimiter startAfter maxKeys rest
               (st\<lparr>contents := contents st @
                      [\<lparr>Key = objectKey, obj_Size = Size entry,
                        LastModified = GetModifyTime entry, ETag = generateETag entry\<rparr>],
                   count := count st + 1\<rparr>)))"

definition convertToListObjectsResult ::
  "StarfishBackend \<Rightarrow> StarfishQueryResponse \<Rightarrow> string \<Rightarrow> string \<Rightarrow> string \<Rightarrow> string \<Rightarrow> int \<Rightarrow>
     panic + ListObjectsResult" where
  "convertToListObjectsResult b starfishResult bucket pfx delimiter startAfter maxKeys =
     (case convert_loop b bucket pfx delimiter startAfter maxKeys
             (Entries starfishResult) conv_init of
        Inl p \<Rightarrow> Inl p
      | Inr st \<Rightarrow>
          Inr \<lparr>Contents = contents st, CommonPrefixes = commonPrefixes st,
               IsTruncated = isTruncated st, MaxKeys = word_of_int maxKeys,
               Name = bucket, Prefix = pfx, Delimiter = delimiter\<rparr>)"

definition convertToListObjectsV2Result ::
  "StarfishBackend \<Rightarrow> StarfishQueryResponse \<Rightarrow> string \<Rightarrow> string \<Rightarrow> string \<Rightarrow> string \<Rightarrow> int \<Rightarrow>
     panic + ListObjectsV2Result" where
  "convertToListObjectsV2Result b starfishResult bucket pfx delimiter startAfter maxKeys =
     (case convert_loop b bucket pfx delimiter startAfter maxKeys
             (Entries starfishResult) conv_init of
        Inl p \<Rightarrow> Inl p
      | Inr st \<Rightarrow>
          Inr \<lparr>Contents = contents st, CommonPrefixes = commonPrefixes st,
               IsTruncated = isTruncated st, MaxKeys = word_of_int maxKeys,
               Name = bucket, Prefix = pfx, Delimiter = delimiter,
               KeyCount = word_of_int (int (length (contents st))),
               StartAfter = startAfter\<rparr>)"

section \<open>Path rewrite engine (backend/starfish/path\_rewrite.go)\<close>

subsection \<open>What the Go runtime and library decide\<close>

text \<open>
  The engine calls the packages \<open>regexp\<close>, \<open>text/template\<close>, \<open>sort\<close>, \<open>time\<close>, \<open>fmt\<close> and
  \<open>strings\<close>, and it ranges over a Go map. Their behaviour is a parameter of the model:
  \<^item> \<open>regexp_Compile p\<close> is \<open>None\<close> when \<open>regexp.Compile(p)\<close> returns an error, and
    otherwise the \<open>MatchString\<close> of the compiled expression;
  \<^item> \<open>template_Parse funcs t\<close> is \<open>None\<close> when \<open>template.New("path").Funcs(funcs).Parse(t)\<close>
    returns an error, and otherwise the \<open>Execute\<close> of the parsed template, which is \<open>None\<close>
    when it returns an error and the text written otherwise;
  \<^item> \<open>sort_Slice less xs\<close> is the slice after \<open>sort.Slice(xs, less)\<close>;
  \<^item> \<open>range_order keys\<close> is the order in which a \<open>range\<close> loop visits the keys of a map,
    which the language leaves open and the runtime varies from one loop to the next;
  \<^item> \<open>time_Format\<close>, \<open>strings_TrimSpace\<close> and \<open>fmt_Sscanf_d\<close> are \<open>Time.Format\<close> (in the
    local zone), \<open>strings.TrimSpace\<close> and \<open>fmt.Sscanf(s, "%d", &n)\<close>.
\<close>

record TemplateData =
  Entry :: StarfishEntry
  ModifyTimeFormatted :: string
  CreateTimeFormatted :: string
  AccessTimeFormatted :: string
  SizeFormatted :: string
  OriginalKey :: string

text \<open>A value of type \<open>interface{}\<close> handed to \<open>toInt\<close>.\<close>

datatype goany = AnyInt64 "64 word" | AnyInt "64 word" | AnyString string | AnyOther

text \<open>The values of a \<open>template.FuncMap\<close>: a function of the Go library bound by name, or
  a function literal of the source, by its type.\<close>

datatype gofunc =
    Lib string
  | F_time_str "gotime \<Rightarrow> string \<Rightarrow> string"
  | F_int_str "int \<Rightarrow> string \<Rightarrow> string"
  | F_entry_str_str "StarfishEntry \<Rightarrow> string \<Rightarrow> string"
  | F_entry_str "StarfishEntry \<Rightarrow> string"
  | F_entry_list "StarfishEntry \<Rightarrow> string list"
  | F_list_str "string list \<Rightarrow> string"
  | F_list_int_str "string list \<Rightarrow> int \<Rightarrow> string"
  | F_list_int "string list \<Rightarrow> int"
  | F_bool_str_str "bool \<Rightarrow> string \<Rightarrow> string \<Rightarrow> string"
  | F_str_str "string \<Rightarrow> string \<Rightarrow> string"
  | F_int64_int64 "64 word \<Rightarrow> 64 word \<Rightarrow> 64 word"
  | F_any_int64 "goany \<Rightarrow> 64 word"

record go_runtime =
  regexp_Compile :: "string \<Rightarrow> (string \<Rightarrow> bool) option"
  template_Parse :: "(string \<times> gofunc) list \<Rightarrow> string \<Rightarrow> (TemplateData \<Rightarrow> string option) option"
  sort_Slice :: "(PathRewriteRule \<Rightarrow> PathRewriteRule \<Rightarrow> bool) \<Rightarrow> PathRewriteRule list \<Rightarrow> PathRewriteRule list"
  range_order :: "string list \<Rightarrow> string list"
  time_Format :: "gotime \<Rightarrow> string \<Rightarrow> string"
  strings_TrimSpace :: "string \<Rightarrow> string"
  fmt_Sscanf_d :: "string \<Rightarrow> 64 word"

subsection \<open>Entry methods and size formatting\<close>

definition strings_TrimSuffix :: "string \<Rightarrow> string \<Rightarrow> string" where
  "strings_TrimSuffix s sfx = (if suffix sfx s then take (length s - length sfx) s else s)"

text \<open>\<open>filepath.Ext\<close>: the suffix from the last dot of the last element; \<open>filepath.Dir\<close>:
  all but the last element, cleaned.\<close>

definition filepath_Ext :: "string \<Rightarrow> string" where
  "filepath_Ext path =
     (let base = last (split_byte CHR ''/'' path)
      in if CHR ''.'' \<in> set base then CHR ''.'' # last (split_byte CHR ''.'' base) else [])"

definition filepath_Dir :: "string \<Rightarrow> string" where
  "filepath_Dir path =
     filepath_Clean (take (length path - length (last (split_byte CHR ''/'' path))) path)"

text \<open>Go's integer division truncates towards zero: \<open>sdiv\<close>.\<close>

definition formatSizeWithUnit :: "int \<Rightarrow> string \<Rightarrow> string" where
  "formatSizeWithUnit sz unit =
     (if unit = ''bytes'' \<or> unit = ''b'' then show_int sz
      else if unit = ''kb'' \<or> unit = ''KB'' then show_int (sz sdiv 1024)
      else if unit = ''mb'' \<or> unit = ''MB'' then show_int (sz sdiv (1024 * 1024))
      else if unit = ''gb'' \<or> unit = ''GB'' then show_int (sz sdiv (1024 * 1024 * 1024))
      else if unit = ''tb'' \<or> unit = ''TB'' then
        show_int (sz sdiv (1024 * 1024 * 1024 * 1024))
      else if unit = ''auto'' then
        (if sz < 1024 then show_int sz @ ''B''
         else if sz < 1024 * 1024 then show_int (sz sdiv 1024) @ ''KB''
         else if sz < 1024 * 1024 * 1024 then show_int (sz sdiv (1024 * 1024)) @ ''MB''
         else if sz < 1024 * 1024 * 1024 * 1024 then
           show_int (sz sdiv (1024 * 1024 * 1024)) @ ''GB''
         else show_int (sz sdiv (1024 * 1024 * 1024 * 1024)) @ ''TB'')
      else show_int sz)"

definition formatSize :: "int \<Rightarrow> string" where
  "formatSize sz = formatSizeWithUnit sz ''auto''"

definition GetModifyTimeFormatted :: "go_runtime \<Rightarrow> StarfishEntry \<Rightarrow> string \<Rightarrow> string" where
  "GetModifyTimeFormatted rt e layout =
     (if ModifyTimeUnix e > 0 then time_Format rt (Unix (ModifyTimeUnix e)) layout else [])"

definition GetCreateTimeFormatted :: "go_runtime \<Rightarrow> StarfishEntry \<Rightarrow> string \<Rightarrow> string" where
  "GetCreateTimeFormatted rt e layout =
     (if CreateTimeUnix e > 0 then time_Format rt (Unix (CreateTimeUnix e)) layout else [])"

definition GetAccessTimeFormatted :: "go_runtime \<Rightarrow> StarfishEntry \<Rightarrow> string \<Rightarrow> string" where
  "GetAccessTimeFormatted rt e layout =
     (if AccessTimeUnix e > 0 then time_Format rt (Unix (AccessTimeUnix e)) layout else [])"

definition GetSizeFormatted :: "StarfishEntry \<Rightarrow> string \<Rightarrow> string" where
  "GetSizeFormatted e unit = formatSizeWithUnit (Size e) unit"

definition GetFilenameWithoutExt :: "StarfishEntry \<Rightarrow> string" where
  "GetFilenameWithoutExt e = strings_TrimSuffix (Filename e) (filepath_Ext (Filename e))"

definition GetExtension :: "StarfishEntry \<Rightarrow> string" where
  "GetExtension e = filepath_Ext (Filename e)"

definition GetParentDir :: "StarfishEntry \<Rightarrow> string" where
  "GetParentDir e = filepath_Dir (ParentPath e)"

definition GetVolumeName :: "StarfishEntry \<Rightarrow> string" where
  "GetVolumeName e = Volume e"

definition GetUIDString :: "StarfishEntry \<Rightarrow> string" where
  "GetUIDString e = show_int (UID e)"

definition GetGIDString :: "StarfishEntry \<Rightarrow> string" where
  "GetGIDString e = show_int (GID e)"

definition GetSizeString :: "StarfishEntry \<Rightarrow> string" where
  "GetSizeString e = show_int (Size e)"

definition GetInodeString :: "StarfishEntry \<Rightarrow> string" where
  "GetInodeString e = show_int (Inode e)"

definition GetTagsExplicit :: "StarfishEntry \<Rightarrow> string list" where
  "GetTagsExplicit e =
     (if TagsExplicitStr e = [] then [] else split_byte CHR '','' (TagsExplicitStr e))"

definition GetTagsInherited :: "StarfishEntry \<Rightarrow> string list" where
  "GetTagsInherited e =
     (if TagsInheritedStr e = [] then [] else split_byte CHR '','' (TagsInheritedStr e))"

text \<open>
  \<open>GetAllTags\<close> puts both tag lists into a map and ranges over the map to build the
  result: the tags come out in the order in which the runtime visits the keys.
\<close>

definition GetAllTags :: "go_runtime \<Rightarrow> StarfishEntry \<Rightarrow> string list" where
  "GetAllTags rt e =
     (let explicit = GetTagsExplicit e;
          inherited = GetTagsInherited e;
          tagMap = fold (\<lambda>tag m. AList.update tag True m) inherited
                     (fold (\<lambda>tag m. AList.update tag True m) explicit [])
      in range_order rt (map fst tagMap))"

subsection \<open>Template execution\<close>

definition IsZero :: "gotime \<Rightarrow> bool" where
  "IsZero t = (t = ZeroTime \<or> t = Unix (- 62135596800))"

definition funcMap :: "go_runtime \<Rightarrow> (string \<times> gofunc) list" where
  "funcMap rt =
     [(''join'', Lib ''strings.Join''),
      (''split'', Lib ''strings.Split''),
      (''lower'', Lib ''strings.ToLower''),
      (''upper'', Lib ''strings.ToUpper''),
      (''title'', Lib ''strings.Title''),
      (''trim'', Lib ''strings.TrimSpace''),
      (''trimLeft'', Lib ''strings.TrimLeft''),
      (''trimRight'', Lib ''strings.TrimRight''),
      (''replace'', Lib ''strings.Replace''),
      (''replaceAll'', Lib ''strings.ReplaceAll''),
      (''hasPrefix'', Lib ''strings.HasPrefix''),
      (''hasSuffix'', Lib ''strings.HasSuffix''),
      (''contains'', Lib ''strings.Contains''),
      (''ext'', Lib ''filepath.Ext''),
      (''base'', Lib ''filepath.Base''),
      (''dir'', Lib ''filepath.Dir''),
      (''clean'', Lib ''filepath.Clean''),
      (''joinPath'', Lib ''filepath.Join''),
      (''formatTime'', F_time_str (\<lambda>t layout. if IsZero t then [] else time_Format rt t layout)),
      (''formatUnix'', F_int_str (\<lambda>unixTime layout.
          if unixTime \<le> 0 then [] else time_Format rt (Unix unixTime) layout)),
      (''formatSize'', F_int_str (\<lambda>sz unit. formatSizeWithUnit sz unit)),
      (''getModifyTimeFormatted'', F_entry_str_str (\<lambda>entry layout. GetModifyTimeFormatted rt entry layout)),
      (''getCreateTimeFormatted'', F_entry_str_str (\<lambda>entry layout. GetCreateTimeFormatted rt entry layout)),
      (''getAccessTimeFormatted'', F_entry_str_str (\<lambda>entry layout. GetAccessTimeFormatted rt entry layout)),
      (''getSizeFormatted'', F_entry_str_str (\<lambda>entry unit. GetSizeFormatted entry unit)),
      (''getFilenameWithoutExt'', F_entry_str (\<lambda>entry. GetFilenameWithoutExt entry)),
      (''getExtension'', F_entry_str (\<lambda>entry. GetExtension entry)),
      (''getParentDir'', F_entry_str (\<lambda>entry. GetParentDir entry)),
      (''getVolumeName'', F_entry_str (\<lambda>entry. GetVolumeName entry)),
      (''getUIDString'', F_entry_str (\<lambda>entry. GetUIDString entry)),
      (''getGIDString'', F_entry_str (\<lambda>entry. GetGIDString entry)),
      (''getSizeString'', F_entry_str (\<lambda>entry. GetSizeString entry)),
      (''getInodeString'', F_entry_str (\<lambda>entry. GetInodeString entry)),
      (''getTagsExplicit'', F_entry_list (\<lambda>entry. GetTagsExplicit entry)),
      (''getTagsInherited'', F_entry_list (\<lambda>entry. GetTagsInherited entry)),
      (''getAllTags'', F_entry_list (\<lambda>entry. GetAllTags rt entry)),
      (''first'', F_list_str (\<lambda>slice. if length slice > 0 then slice ! 0 else [])),
      (''last'', F_list_str (\<lambda>slice. if length slice > 0 then slice ! (length slice - 1) else [])),
      (''index'', F_list_int_str (\<lambda>slice i.
          if i \<ge> 0 \<and> i < int (length slice) then slice ! nat i else [])),
      (''length'', F_list_int (\<lambda>slice. int (length slice))),
      (''if'', F_bool_str_str (\<lambda>condition trueVal falseVal. if condition then trueVal else falseVal)),
      (''default'', F_str_str (\<lambda>v defaultValue. if v = [] then defaultValue else v)),
      (''add'', F_int64_int64 (\<lambda>a b. a + b)),
      (''sub'', F_int64_int64 (\<lambda>a b. a - b)),
      (''mul'', F_int64_int64 (\<lambda>a b. a * b)),
      (''div'', F_int64_int64 (\<lambda>a b. if b = 0 then 0 else word_of_int (sint a sdiv sint b))),
      (''toString'', Lib ''fmt.Sprintf(%v)''),
      (''toInt'', F_any_int64 (\<lambda>v. case v of
          AnyInt64 val \<Rightarrow> val
        | AnyInt val \<Rightarrow> val
        | AnyString val \<Rightarrow> fmt_Sscanf_d rt val
        | AnyOther \<Rightarrow> 0))]"

datatype template_error = TemplateParseError | TemplateExecutionError

text \<open>The \<open>TemplateData\<close> literal that \<open>executeTemplate\<close> builds.\<close>

definition templateData :: "go_runtime \<Rightarrow> StarfishEntry \<Rightarrow> string \<Rightarrow> TemplateData" where
  "templateData rt entry originalKey =
     \<lparr>Entry = entry,
      ModifyTimeFormatted = time_Format rt (GetModifyTime entry) ''2006/01/02'',
      CreateTimeFormatted = time_Format rt (GetCreateTime entry) ''2006/01/02'',
      AccessTimeFormatted = time_Format rt (GetAccessTime entry) ''2006/01/02'',
      SizeFormatted = formatSize (Size entry),
      OriginalKey = originalKey\<rparr>"

definition executeTemplate :: "go_runtime \<Rightarrow> StarfishEntry \<Rightarrow> string \<Rightarrow> string \<Rightarrow> template_error + string" where
  "executeTemplate rt entry templateStr originalKey =
     (case template_Parse rt (funcMap rt) templateStr of
        None \<Rightarrow> Inl TemplateParseError
      | Some tmpl \<Rightarrow>
          (case tmpl (templateData rt entry originalKey) of
             None \<Rightarrow> Inl TemplateExecutionError
           | Some buf \<Rightarrow> Inr (strings_TrimPrefix (strings_TrimSpace rt buf) ''/'')))"

subsection \<open>Rules\<close>

definition applyRule :: "go_runtime \<Rightarrow> StarfishEntry \<Rightarrow> string \<Rightarrow> PathRewriteRule \<Rightarrow> bool \<times> string" where
  "applyRule rt entry originalKey rule =
     (case regexp_Compile rt (Pattern rule) of
        None \<Rightarrow> (False, originalKey)
      | Some re \<Rightarrow>
          if \<not> re originalKey then (False, originalKey)
          else
            (case executeTemplate rt entry (Template rule) originalKey of
               Inl err \<Rightarrow> (False, originalKey)
             | Inr newKey \<Rightarrow> (True, newKey)))"

text \<open>The loop of \<open>applyPathRewrite\<close> over the sorted rules.\<close>

fun rules_loop :: "go_runtime \<Rightarrow> StarfishEntry \<Rightarrow> string \<Rightarrow> string \<Rightarrow> PathRewriteRule list \<Rightarrow> string" where
  "rules_loop rt entry originalKey bucket [] = originalKey"
| "rules_loop rt entry originalKey bucket (rule # rest) =
     (if Bucket rule = ''*'' \<or> Bucket rule = bucket then
        (case applyRule rt entry originalKey rule of
           (matched, newKey) \<Rightarrow>
             if matched then newKey else rules_loop rt entry originalKey bucket rest)
      else rules_loop rt entry originalKey bucket rest)"

definition applyPathRewrite :: "go_runtime \<Rightarrow> StarfishBackend \<Rightarrow> StarfishEntry \<Rightarrow> string \<Rightarrow> string \<Rightarrow> string" where
  "applyPathRewrite rt b entry originalKey bucket =
     (case pathRewriteConfig b of
        None \<Rightarrow> originalKey
      | Some config \<Rightarrow>
          if length (Rules config) = 0 then originalKey
          else rules_loop rt entry originalKey bucket
                 (sort_Slice rt (\<lambda>ri rj. Priority ri > Priority rj) (Rules config)))"

section \<open>Example data\<close>

text \<open>
  One runtime for the examples. It answers as Go does on the patterns, templates and
  layouts that the examples use (times in UTC, ASCII text, slices of at most 12 rules, for
  which \<open>sort.Slice\<close> is an insertion sort), and is not meant to describe Go outside them.
\<close>

fun insert_back :: "('a \<Rightarrow> 'a \<Rightarrow> bool) \<Rightarrow> 'a \<Rightarrow> 'a list \<Rightarrow> 'a list" where
  "insert_back lt x [] = [x]"
| "insert_back lt x (y # ys) = (if lt x y then y # insert_back lt x ys else x # y # ys)"

text \<open>\<open>insertionSort\<close> moves each element to the left while it is less than its left
  neighbour; the sorted part is kept last element first.\<close>

definition insertionSort :: "('a \<Rightarrow> 'a \<Rightarrow> bool) \<Rightarrow> 'a list \<Rightarrow> 'a list" where
  "insertionSort lt xs = rev (foldl (\<lambda>placed x. insert_back lt x placed) [] xs)"

definition pad_left :: "nat \<Rightarrow> string \<Rightarrow> string" where
  "pad_left n ds = replicate (n - length ds) CHR ''0'' @ ds"

text \<open>Year, month and day of a number of days since 1970-01-01.\<close>

definition civil_from_days :: "int \<Rightarrow> int \<times> int \<times> int" where
  "civil_from_days days =
     (let z = days + 719468;
          era = z div 146097;
          doe = z mod 146097;
          yoe = (doe - doe div 1460 + doe div 36524 - doe div 146096) div 365;
          doy = doe - (365 * yoe + yoe div 4 - yoe div 100);
          mp = (5 * doy + 2) div 153;
          d = doy - (153 * mp + 2) div 5 + 1;
          m = (if mp < 10 then mp + 3 else mp - 9);
          y = yoe + era * 400 + (if m \<le> 2 then 1 else 0)
      in (y, m, d))"

definition example_Format :: "gotime \<Rightarrow> string \<Rightarrow> string" where
  "example_Format t layout =
     (case (case t of ZeroTime \<Rightarrow> (1, 1, 1) | Unix s \<Rightarrow> civil_from_days (s div 86400)) of
        (y, m, d) \<Rightarrow>
          if layout = ''2006/01/02'' then
            pad_left 4 (show_int y) @ ''/'' @ pad_left 2 (show_int m) @ ''/'' @ pad_left 2 (show_int d)
          else if layout = ''01/02/2006'' then
            pad_left 2 (show_int m) @ ''/'' @ pad_left 2 (show_int d) @ ''/'' @ pad_left 4 (show_int y)
          else [])"

definition ascii_space :: "char \<Rightarrow> bool" where
  "ascii_space c = (c \<in> set [CHR '' '', CHR 0x09, CHR 0x0A, CHR 0x0B, CHR 0x0C, CHR 0x0D])"

definition example_TrimSpace :: "string \<Rightarrow> string" where
  "example_TrimSpace s = rev (dropWhile ascii_space (rev (dropWhile ascii_space s)))"

definition example_Compile :: "string \<Rightarrow> (string \<Rightarrow> bool) option" where
  "example_Compile p =
     (if p = ''^(.*)$'' then Some (\<lambda>s. CHR 0x0A \<notin> set s)
      else None)"

text \<open>The templates of the examples: the three of \<open>TestPathRewrite\<close>, one that joins all
  tags, \<open>{{\<close> (which does not parse), \<open>{{.Filename}}\<close> (which parses and fails when executed,
  \<open>TemplateData\<close> having no such field), and plain text.\<close>

definition example_Parse :: "(string \<times> gofunc) list \<Rightarrow> string \<Rightarrow> (TemplateData \<Rightarrow> string option) option" where
  "example_Parse funcs t =
     (if t = ''{{getModifyTimeFormatted .Entry \"2006/01/02\"}}/{{.Entry.Filename}}'' then
        Some (\<lambda>d. case map_of funcs ''getModifyTimeFormatted'' of
                     Some (F_entry_str_str f) \<Rightarrow>
                       Some (f (Entry d) ''2006/01/02'' @ ''/'' @ Filename (Entry d))
                   | _ \<Rightarrow> None)
      else if t = ''{{getModifyTimeFormatted .Entry \"01/02/2006\"}}/{{.Entry.Filename}}'' then
        Some (\<lambda>d. case map_of funcs ''getModifyTimeFormatted'' of
                     Some (F_entry_str_str f) \<Rightarrow>
                       Some (f (Entry d) ''01/02/2006'' @ ''/'' @ Filename (Entry d))
                   | _ \<Rightarrow> None)
      else if t = ''{{join (getTagsExplicit .Entry) \"/\"}}/{{.Entry.Filename}}'' then
        Some (\<lambda>d. case map_of funcs ''getTagsExplicit'' of
                     Some (F_entry_list f) \<Rightarrow>
                       Some (strings_Join (f (Entry d)) ''/'' @ ''/'' @ Filename (Entry d))
                   | _ \<Rightarrow> None)
      else if t = ''{{join (getAllTags .Entry) \"/\"}}'' then
        Some (\<lambda>d. case map_of funcs ''getAllTags'' of
                     Some (F_entry_list f) \<Rightarrow> Some (strings_Join (f (Entry d)) ''/'')
                   | _ \<Rightarrow> None)
      else if t = ''{{.Filename}}'' then Some (\<lambda>d. None)
      else if CHR ''{'' \<in> set t then None
      else Some (\<lambda>d. Some t))"

definition example_rt :: go_runtime where
  "example_rt =
     \<lparr>regexp_Compile = example_Compile,
      template_Parse = example_Parse,
      sort_Slice = insertionSort,
      range_order = (\<lambda>keys. keys),
      time_Format = example_Format,
      strings_TrimSpace = example_TrimSpace,
      fmt_Sscanf_d = (\<lambda>s. 0)\<rparr>"

text \<open>The entry and the rules of \<open>TestPathRewrite\<close>.\<close>

definition file_entry :: "string \<Rightarrow> string \<Rightarrow> string \<Rightarrow> StarfishEntry" where
  "file_entry fullPath parentPath filename =
     \<lparr>ID = 0, Filename = filename, ParentPath = parentPath, FullPath = fullPath, Type = 0,
      Size = 0, Mode = [], UID = 0, GID = 0, CreateTimeUnix = 0, ModifyTimeUnix = 0,
      AccessTimeUnix = 0, Volume = [], Inode = 0, SizeUnit = [], TagsExplicitStr = [],
      TagsInheritedStr = [], Zones = []\<rparr>"

definition test_entry :: StarfishEntry where
  "test_entry =
     (file_entry [] [] ''document.pdf'')
       \<lparr>ModifyTimeUnix := 1705314600, Size := 1048576, UID := 1000, GID := 1000,
        Volume := ''storage1'', TagsExplicitStr := ''project-a,important''\<rparr>"

definition test_rules :: "PathRewriteRule list" where
  "test_rules =
     [\<lparr>Bucket = ''*'', Pattern = ''^(.*)$'',
       Template = ''{{getModifyTimeFormatted .Entry \"2006/01/02\"}}/{{.Entry.Filename}}'',
       Priority = 100\<rparr>,
      \<lparr>Bucket = ''Archive'', Pattern = ''^(.*)$'',
       Template = ''{{getModifyTimeFormatted .Entry \"01/02/2006\"}}/{{.Entry.Filename}}'',
       Priority = 200\<rparr>,
      \<lparr>Bucket = ''Tagged-Data'', Pattern = ''^(.*)$'',
       Template = ''{{join (getTagsExplicit .Entry) \"/\"}}/{{.Entry.Filename}}'',
       Priority = 300\<rparr>]"

definition backend_with :: "PathRewriteRule list \<Rightarrow> StarfishBackend" where
  "backend_with rules =
     \<lparr>apiEndpoint = ''http://starfish'', bearerToken = ''token'', fileServerURL = [],
      cache = NewQueryCache 3600000000000 None, collections = [],
      pathRewriteConfig = Some \<lparr>Rules = rules\<rparr>\<rparr>"

text \<open>Rules that fail in the three ways: a pattern that does not compile, a template
  that does not parse, a template that fails when executed; and a rule of plain text.\<close>

definition bad_pattern_rule :: PathRewriteRule where
  "bad_pattern_rule = \<lparr>Bucket = ''*'', Pattern = ''['', Template = ''unused'', Priority = 400\<rparr>"

definition bad_template_rule :: PathRewriteRule where
  "bad_template_rule = \<lparr>Bucket = ''*'', Pattern = ''^(.*)$'', Template = ''{{'', Priority = 300\<rparr>"

definition failing_template_rule :: PathRewriteRule where
  "failing_template_rule =
     \<lparr>Bucket = ''*'', Pattern = ''^(.*)$'', Template = ''{{.Filename}}'', Priority = 200\<rparr>"

definition fallback_rule :: PathRewriteRule where
  "fallback_rule =
     \<lparr>Bucket = ''*'', Pattern = ''^(.*)$'', Template = ''fallback/document.pdf'', Priority = 100\<rparr>"

text \<open>A rule that joins all tags, and an entry with one explicit and one inherited tag.\<close>

definition all_tags_rule :: PathRewriteRule where
  "all_tags_rule =
     \<lparr>Bucket = ''*'', Pattern = ''^(.*)$'', Template = ''{{join (getAllTags .Entry) \"/\"}}'',
      Priority = 100\<rparr>"

definition tagged_entry :: StarfishEntry where
  "tagged_entry =
     (file_entry [] [] ''document.pdf'')\<lparr>TagsExplicitStr := ''a'', TagsInheritedStr := ''b''\<rparr>"

text \<open>A cache whose only entry was hit once at time 5 and expired at time 10.\<close>

definition hit_then_expired :: QueryCache where
  "hit_then_expired = snd (Get (Set (NewQueryCache 10 None) 0 ''k'' None ''v'') 5 ''k'')"

(*DEFS-END*)

section \<open>Properties of the result cache\<close>

lemma stats_loop_eq:
  "stats_loop now xs (v, e, h) =
     (v + length (filter (\<lambda>(k, r). \<not> After now (ExpiresAt r)) xs),
      e + length (filter (\<lambda>(k, r). After now (ExpiresAt r)) xs),
      h + sum_list (map (\<lambda>(k, r). HitCount r)
                     (filter (\<lambda>(k, r). \<not> After now (ExpiresAt r)) xs)))"
  by (induction xs arbitrary: v e h) (auto simp: algebra_simps)

text \<open>
  Claim C2, as the code has it. \<open>Set\<close> stores the result under the key with expiry time
  insertion time + configured TTL. For a key that is present, \<open>Get\<close> returns the stored
  result at every read up to and including the expiry time, and returns absent at every
  read strictly after it; in that case the entry is removed from the cache by the lookup.
\<close>

theorem Get_ttl:
  assumes "map_of (data c) key = Some r"
  shows "map_of (data (Set c0 t0 key d vp)) key =
           Some \<lparr>Data = d, CachedAt = t0, ExpiresAt = t0 + defaultTTL c0,
                 VolumeAndPath = vp, HitCount = 0\<rparr>
     \<and> fst (Get c now key) = (if now \<le> ExpiresAt r then Data r else None)
     \<and> (ExpiresAt r < now \<longrightarrow> map_of (data (snd (Get c now key))) key = None)"
  using assms
  by (simp add: Get_def Set_def Let_def After_def AList.update_conv' AList.delete_conv')

theorem Get_ttl_witness:
  "fst (Get (Set (NewQueryCache 10 None) 0 ''k'' (Some \<lparr>Entries = [], Total = 0\<rparr>) ''v'') 7 ''k'')
     = Some \<lparr>Entries = [], Total = 0\<rparr>
   \<and> fst (Get (Set (NewQueryCache 10 None) 0 ''k'' (Some \<lparr>Entries = [], Total = 0\<rparr>) ''v'') 11 ''k'')
     = None
   \<and> map_of (data (snd (Get (Set (NewQueryCache 10 None) 0 ''k''
                                 (Some \<lparr>Entries = [], Total = 0\<rparr>) ''v'') 11 ''k''))) ''k'' = None"
  using
    Get_ttl [of "Set (NewQueryCache 10 None) 0 ''k'' (Some \<lparr>Entries = [], Total = 0\<rparr>) ''v''"
      "''k''"
      "\<lparr>Data = Some \<lparr>Entries = [], Total = 0\<rparr>, CachedAt = 0, ExpiresAt = 10,
        VolumeAndPath = ''v'', HitCount = 0\<rparr>" _ _ _ _ 7]
    Get_ttl [of "Set (NewQueryCache 10 None) 0 ''k'' (Some \<lparr>Entries = [], Total = 0\<rparr>) ''v''"
      "''k''"
      "\<lparr>Data = Some \<lparr>Entries = [], Total = 0\<rparr>, CachedAt = 0, ExpiresAt = 10,
        VolumeAndPath = ''v'', HitCount = 0\<rparr>" _ _ _ _ 11]
  by (simp add: Set_def NewQueryCache_def)

text \<open>
  Claim C2 as stated fails at the expiry time itself: with TTL 10 and insertion at time 0,
  the read at time 10 still returns the stored result, since \<open>Get\<close> tests
  \<open>time.Now().After(cached.ExpiresAt)\<close>.
\<close>

theorem Get_at_expiry_counterexample:
  "(10::int) = 0 + defaultTTL (NewQueryCache 10 None)
   \<and> fst (Get (Set (NewQueryCache 10 None) 0 ''k'' (Some \<lparr>Entries = [], Total = 0\<rparr>) ''v'')
            10 ''k'')
       = Some \<lparr>Entries = [], Total = 0\<rparr>"
  by (simp add: Get_def Set_def Let_def After_def NewQueryCache_def)

text \<open>
  Claim C8, as the code has it. \<open>Clear\<close> removes all entries and has no result; the number
  of entries removed is only passed to the metrics manager, when one is configured, as the
  value of \<open>starfish_cache_clear\<close>. After \<open>Clear\<close>, \<open>Stats\<close> reports zero total entries,
  whatever the cache held.
\<close>

theorem Clear_removes_all:
  "fst (Clear c) = ()
   \<and> data (snd (Clear c)) = []
   \<and> defaultTTL (snd (Clear c)) = defaultTTL c
   \<and> metricsManager (snd (Clear c)) =
       (case metricsManager c of
          None \<Rightarrow> None
        | Some calls \<Rightarrow>
            Some (calls @ [(''starfish_cache_clear'', of_nat (length (data c)), []),
                           (''starfish_cache_entries'', 0, [])]))
   \<and> total_entries (Stats rt (snd (Clear c)) now) = 0"
  by (simp add: Clear_def Stats_def Let_def Add_def split: option.splits)

text \<open>
  Claim C8 as stated says that \<open>Clear\<close> returns the number of entries removed. It returns
  nothing: clearing an empty cache and clearing a cache of one entry, both without a
  metrics manager, give the same result and the same cache, though 0 and 1 entries were
  removed.
\<close>

theorem Clear_count_counterexample:
  "Clear (NewQueryCache 10 None) = Clear (Set (NewQueryCache 10 None) 0 ''k'' None ''v'')
   \<and> length (data (NewQueryCache 10 None)) = 0
   \<and> length (data (Set (NewQueryCache 10 None) 0 ''k'' None ''v'')) = 1"
  by (simp add: Clear_def Set_def NewQueryCache_def Let_def Add_def)

text \<open>
  Claim C9, as the code has it. \<open>Stats\<close> returns the number of entries, the number of
  unexpired and of expired entries, and a hit ratio that is the sum of the hit counters of
  the unexpired entries divided by the number of all entries (zero for an empty cache).
\<close>

theorem Stats_counts:
  "total_entries (Stats rt c now) = length (data c)
   \<and> valid_entries (Stats rt c now) =
       length (filter (\<lambda>(k, r). \<not> After now (ExpiresAt r)) (data c))
   \<and> expired_entries (Stats rt c now) =
       length (filter (\<lambda>(k, r). After now (ExpiresAt r)) (data c))
   \<and> total_hits (Stats rt c now) =
       sum_list (map (\<lambda>(k, r). HitCount r)
                  (filter (\<lambda>(k, r). \<not> After now (ExpiresAt r)) (data c)))
   \<and> cache_hit_ratio (Stats rt c now) =
       (if data c = [] then float64 rt 0
        else quotient rt (float64 rt (sint (total_hits (Stats rt c now))))
                         (float64 rt (int (length (data c)))))"
  by (simp add: Stats_def stats_loop_eq)

text \<open>
  Claim C9 as stated divides the cumulative hits of all entries by the number of entries.
  The hits of expired entries are left out: a cache whose only entry was hit once and has
  expired holds one hit and one entry, and its ratio is 0, not 1.
\<close>

theorem Stats_ratio_counterexample:
  "sum_list (map (\<lambda>(k, r). HitCount r) (data hit_then_expired)) = 1
   \<and> total_entries (Stats exact_rt hit_then_expired 11) = 1
   \<and> cache_hit_ratio (Stats exact_rt hit_then_expired 11) = 0"
  by (simp add: hit_then_expired_def Stats_def Get_def Set_def NewQueryCache_def Let_def
        After_def exact_rt_def Add_def)

text \<open>
  Claim C10. A \<open>Get\<close> that hits a present, unexpired entry returns its data and changes
  the cache entries in one place only: the hit counter of that entry goes up by one (in
  64-bit arithmetic). The data, insertion time, expiry time and descriptor of that entry,
  every other entry, the set of keys and the TTL are unchanged; the expiry time is not
  extended. (The hit is also reported to the metrics manager.)
\<close>

theorem Get_hit_frame:
  assumes "map_of (data c) key = Some r" and "\<not> After now (ExpiresAt r)"
  shows "fst (Get c now key) = Data r
     \<and> data (snd (Get c now key)) = AList.update key (r\<lparr>HitCount := HitCount r + 1\<rparr>) (data c)
     \<and> map_of (data (snd (Get c now key))) key =
         Some \<lparr>Data = Data r, CachedAt = CachedAt r, ExpiresAt = ExpiresAt r,
               VolumeAndPath = VolumeAndPath r, HitCount = HitCount r + 1\<rparr>
     \<and> (\<forall>k. k \<noteq> key \<longrightarrow> map_of (data (snd (Get c now key))) k = map_of (data c) k)
     \<and> map fst (data (snd (Get c now key))) = map fst (data c)
     \<and> defaultTTL (snd (Get c now key)) = defaultTTL c"
  using assms
  by (auto simp add: Get_def Let_def AList.update_conv' AList.update_keys dest: map_of_SomeD
        intro: rev_image_eqI)

theorem Get_hit_frame_witness:
  "fst (Get (Set (NewQueryCache 10 None) 0 ''k'' None ''v'') 5 ''k'') = None
   \<and> map_of (data (snd (Get (Set (NewQueryCache 10 None) 0 ''k'' None ''v'') 5 ''k''))) ''k'' =
         Some \<lparr>Data = None, CachedAt = 0, ExpiresAt = 10, VolumeAndPath = ''v'', HitCount = 1\<rparr>"
  using Get_hit_frame [of "Set (NewQueryCache 10 None) 0 ''k'' None ''v''" "''k''"
      "\<lparr>Data = None, CachedAt = 0, ExpiresAt = 10, VolumeAndPath = ''v'', HitCount = 0\<rparr>" 5]
  by (simp add: Set_def NewQueryCache_def After_def)

section \<open>Properties of the listing converter\<close>

subsection \<open>Finding the delimiter\<close>

lemma strings_Index_ge: "strings_Index s sep \<ge> -1"
  by (induction s) (auto simp: Let_def)

lemma strings_Index_absent:
  "strings_Index s sep = -1 \<longleftrightarrow> \<not> (\<exists>u v. s = u @ sep @ v)"
proof (induction s)
  case Nil
  then show ?case by auto
next
  case (Cons c cs)
  show ?case
  proof (cases "prefix sep (c # cs)")
    case True
    then obtain v where "c # cs = sep @ v" by (auto simp: prefix_def)
    then have "\<exists>u v. c # cs = u @ sep @ v" by (metis append_Nil)
    moreover have "strings_Index (c # cs) sep = 0" using True by simp
    ultimately show ?thesis by simp
  next
    case False
    have ge: "strings_Index cs sep \<ge> -1" by (rule strings_Index_ge)
    have "(\<exists>u v. c # cs = u @ sep @ v) \<longleftrightarrow> (\<exists>u v. cs = u @ sep @ v)"
    proof
      assume "\<exists>u v. c # cs = u @ sep @ v"
      then obtain u v where uv: "c # cs = u @ sep @ v" by blast
      with False have "u \<noteq> []" by (auto simp: prefix_def)
      then obtain u' where "u = c # u'" using uv by (cases u) auto
      with uv show "\<exists>u v. cs = u @ sep @ v" by auto
    next
      assume "\<exists>u v. cs = u @ sep @ v"
      then obtain u v where "cs = u @ sep @ v" by blast
      then have "c # cs = (c # u) @ sep @ v" by simp
      then show "\<exists>u v. c # cs = u @ sep @ v" by blast
    qed
    with False Cons ge show ?thesis by (auto simp: Let_def)
  qed
qed

lemma strings_Index_first:
  "strings_Index s sep \<noteq> -1 \<Longrightarrow>
     \<exists>u v. s = u @ sep @ v \<and> int (length u) = strings_Index s sep
       \<and> (\<forall>u' v'. s = u' @ sep @ v' \<longrightarrow> length u \<le> length u')"
proof (induction s)
  case Nil
  then show ?case by (auto split: if_splits)
next
  case (Cons c cs)
  show ?case
  proof (cases "prefix sep (c # cs)")
    case True
    then obtain v where v: "c # cs = [] @ sep @ v" by (auto simp: prefix_def)
    have z: "strings_Index (c # cs) sep = 0" using True by simp
    have "c # cs = [] @ sep @ v \<and> int (length ([]::string)) = strings_Index (c # cs) sep
       \<and> (\<forall>u' v'. c # cs = u' @ sep @ v' \<longrightarrow> length ([]::string) \<le> length u')"
      using v z by simp
    then show ?thesis by blast
  next
    case False
    with Cons.prems have ne: "strings_Index cs sep \<noteq> -1" by (auto simp: Let_def split: if_splits)
    have ge: "strings_Index cs sep \<ge> -1" by (rule strings_Index_ge)
    from Cons.IH [OF ne] obtain u v where uv: "cs = u @ sep @ v"
      "int (length u) = strings_Index cs sep"
      "\<forall>u' v'. cs = u' @ sep @ v' \<longrightarrow> length u \<le> length u'" by blast
    have idx: "strings_Index (c # cs) sep = strings_Index cs sep + 1"
      using False ne ge by (auto simp: Let_def)
    have min: "\<forall>u' v'. c # cs = u' @ sep @ v' \<longrightarrow> length (c # u) \<le> length u'"
    proof (intro allI impI)
      fix u' v' assume eq: "c # cs = u' @ sep @ v'"
      with False have "u' \<noteq> []" by (auto simp: prefix_def)
      then obtain u'' where u'': "u' = c # u''" using eq by (cases u') auto
      with eq have "cs = u'' @ sep @ v'" by simp
      with uv(3) have "length u \<le> length u''" by blast
      with u'' show "length (c # u) \<le> length u'" by simp
    qed
    have "c # cs = (c # u) @ sep @ v" using uv(1) by simp
    moreover have "int (length (c # u)) = strings_Index (c # cs) sep" using uv(2) idx by simp
    ultimately show ?thesis using min by blast
  qed
qed

lemma shouldBeCommonPrefix_iff:
  assumes "delimiter \<noteq> []"
  shows "shouldBeCommonPrefix objectKey pfx delimiter \<longleftrightarrow>
     (\<exists>u v. objectKey = pfx @ u @ delimiter @ v \<and> v \<noteq> [])"
proof
  assume s: "shouldBeCommonPrefix objectKey pfx delimiter"
  then have p: "prefix pfx objectKey"
    by (auto simp: shouldBeCommonPrefix_def strings_HasPrefix_def split: if_splits)
  define rest where "rest = drop (length pfx) objectKey"
  from p have key: "objectKey = pfx @ rest" by (auto simp: rest_def prefix_def)
  from s p have ne: "strings_Index rest delimiter \<noteq> -1"
    and lt: "strings_Index rest delimiter + int (length delimiter) < int (length rest)"
    by (auto simp: shouldBeCommonPrefix_def strings_HasPrefix_def Let_def rest_def split: if_splits)
  from strings_Index_first [OF ne] obtain u v where uv: "rest = u @ delimiter @ v"
    "int (length u) = strings_Index rest delimiter" by blast
  with lt have "v \<noteq> []" by auto
  with key uv show "\<exists>u v. objectKey = pfx @ u @ delimiter @ v \<and> v \<noteq> []" by auto
next
  assume "\<exists>u v. objectKey = pfx @ u @ delimiter @ v \<and> v \<noteq> []"
  then obtain u v where key: "objectKey = pfx @ u @ delimiter @ v" and v: "v \<noteq> []" by blast
  define rest where "rest = u @ delimiter @ v"
  have d: "drop (length pfx) objectKey = rest" using key by (simp add: rest_def)
  have ne: "strings_Index rest delimiter \<noteq> -1"
    using strings_Index_absent [of rest delimiter] rest_def by blast
  from strings_Index_first [OF ne] obtain u0 v0 where u0: "rest = u0 @ delimiter @ v0"
    "int (length u0) = strings_Index rest delimiter"
    "\<forall>u' v'. rest = u' @ delimiter @ v' \<longrightarrow> length u0 \<le> length u'" by blast
  then have "length u0 \<le> length u" using rest_def by blast
  moreover have "length rest = length u + length delimiter + length v" by (simp add: rest_def)
  moreover have "length v > 0" using v by simp
  ultimately have "strings_Index rest delimiter + int (length delimiter) < int (length rest)"
    using u0(2) by linarith
  with ne d key show "shouldBeCommonPrefix objectKey pfx delimiter"
    by (simp add: shouldBeCommonPrefix_def strings_HasPrefix_def Let_def)
qed

lemma getCommonPrefix_first:
  assumes "shouldBeCommonPrefix objectKey pfx delimiter"
  shows "\<exists>u v. objectKey = pfx @ u @ delimiter @ v
     \<and> (\<forall>u' v'. objectKey = pfx @ u' @ delimiter @ v' \<longrightarrow> length u \<le> length u')
     \<and> getCommonPrefix objectKey pfx delimiter = Inr (pfx @ u @ delimiter)"
proof -
  from assms have p: "prefix pfx objectKey"
    by (auto simp: shouldBeCommonPrefix_def strings_HasPrefix_def split: if_splits)
  define rest where "rest = drop (length pfx) objectKey"
  from p have key: "objectKey = pfx @ rest" by (auto simp: rest_def prefix_def)
  from assms p have ne: "strings_Index rest delimiter \<noteq> -1"
    by (auto simp: shouldBeCommonPrefix_def strings_HasPrefix_def Let_def rest_def split: if_splits)
  from strings_Index_first [OF ne] obtain u v where uv: "rest = u @ delimiter @ v"
    "int (length u) = strings_Index rest delimiter"
    "\<forall>u' v'. rest = u' @ delimiter @ v' \<longrightarrow> length u \<le> length u'" by blast
  have "length objectKey = length pfx + length rest" using key by (metis length_append)
  then have len: "\<not> length objectKey < length pfx" by simp
  have n: "nat (strings_Index rest delimiter + int (length delimiter)) = length (u @ delimiter)"
    using uv(2) by simp
  have "rest = (u @ delimiter) @ v" using uv(1) by simp
  then have "take (length (u @ delimiter)) rest = u @ delimiter"
    by (simp del: append_assoc)
  with n have "getCommonPrefix objectKey pfx delimiter = Inr (pfx @ u @ delimiter)"
    using ne len by (simp add: getCommonPrefix_def Let_def rest_def [symmetric])
  moreover have "\<forall>u' v'. objectKey = pfx @ u' @ delimiter @ v' \<longrightarrow> length u \<le> length u'"
    using uv(3) key by auto
  moreover have "objectKey = pfx @ u @ delimiter @ v" using key uv(1) by simp
  ultimately show ?thesis by blast
qed


lemma containsCommonPrefix_iff: "containsCommonPrefix cps x \<longleftrightarrow> x \<in> set cps"
  by (induction cps) auto

lemma getCommonPrefix_Inr:
  "shouldBeCommonPrefix k p d \<Longrightarrow> \<exists>cp. getCommonPrefix k p d = Inr cp"
  using getCommonPrefix_first by blast


subsection \<open>The conversion loop\<close>

text \<open>The four ways through one iteration of the conversion loop.\<close>

lemma loop_break:
  "0 < maxKeys \<Longrightarrow> maxKeys \<le> count st \<Longrightarrow>
   convert_loop b bucket pfx delimiter startAfter maxKeys (e # es) st
     = Inr (st\<lparr>isTruncated := True\<rparr>)"
  by simp

lemma loop_skip:
  "maxKeys \<le> 0 \<or> count st < maxKeys \<Longrightarrow>
   startAfter \<noteq> [] \<and> buildObjectKeyFromEntryWithBucket b e bucket \<le> startAfter \<Longrightarrow>
   convert_loop b bucket pfx delimiter startAfter maxKeys (e # es) st
     = convert_loop b bucket pfx delimiter startAfter maxKeys es st"
  by (auto simp add: Let_def)

lemma loop_fold:
  "maxKeys \<le> 0 \<or> count st < maxKeys \<Longrightarrow>
   \<not> (startAfter \<noteq> [] \<and> buildObjectKeyFromEntryWithBucket b e bucket \<le> startAfter) \<Longrightarrow>
   delimiter \<noteq> [] \<and>
     shouldBeCommonPrefix (buildObjectKeyFromEntryWithBucket b e bucket) pfx delimiter \<Longrightarrow>
   getCommonPrefix (buildObjectKeyFromEntryWithBucket b e bucket) pfx delimiter = Inr cp \<Longrightarrow>
   convert_loop b bucket pfx delimiter startAfter maxKeys (e # es) st
     = convert_loop b bucket pfx delimiter startAfter maxKeys es
         (if cp \<in> set (commonPrefixes st) then st
          else st\<lparr>commonPrefixes := commonPrefixes st @ [cp]\<rparr>)"
  by (auto simp add: Let_def containsCommonPrefix_iff)

lemma loop_plain:
  "maxKeys \<le> 0 \<or> count st < maxKeys \<Longrightarrow>
   \<not> (startAfter \<noteq> [] \<and> buildObjectKeyFromEntryWithBucket b e bucket \<le> startAfter) \<Longrightarrow>
   \<not> (delimiter \<noteq> [] \<and>
     shouldBeCommonPrefix (buildObjectKeyFromEntryWithBucket b e bucket) pfx delimiter) \<Longrightarrow>
   convert_loop b bucket pfx delimiter startAfter maxKeys (e # es) st
     = convert_loop b bucket pfx delimiter startAfter maxKeys es
         (st\<lparr>contents := contents st @
                [\<lparr>Key = buildObjectKeyFromEntryWithBucket b e bucket, obj_Size = Size e,
                  LastModified = GetModifyTime e, ETag = generateETag e\<rparr>],
             count := count st + 1\<rparr>)"
  by (auto simp add: Let_def)

lemma loop_cases [case_names break skip fold plain]:
  fixes maxKeys :: int and st :: conv_state and startAfter k delimiter pfx :: string
  obtains
    (break) "0 < maxKeys" "maxKeys \<le> count st"
  | (skip) "maxKeys \<le> 0 \<or> count st < maxKeys" "startAfter \<noteq> [] \<and> k \<le> startAfter"
  | (fold) cp where "maxKeys \<le> 0 \<or> count st < maxKeys"
      "\<not> (startAfter \<noteq> [] \<and> k \<le> startAfter)"
      "delimiter \<noteq> [] \<and> shouldBeCommonPrefix k pfx delimiter"
      "getCommonPrefix k pfx delimiter = Inr cp"
  | (plain) "maxKeys \<le> 0 \<or> count st < maxKeys"
      "\<not> (startAfter \<noteq> [] \<and> k \<le> startAfter)"
      "\<not> (delimiter \<noteq> [] \<and> shouldBeCommonPrefix k pfx delimiter)"
  using getCommonPrefix_Inr [of k pfx delimiter] by (cases "0 < maxKeys \<and> maxKeys \<le> count st") fastforce+

declare convert_loop.simps(2) [simp del]

lemma convert_loop_no_panic:
  "\<exists>st'. convert_loop b bucket pfx delimiter startAfter maxKeys es st = Inr st'"
proof (induction es arbitrary: st)
  case Nil
  then show ?case by simp
next
  case (Cons e es)
  show ?case
  proof (cases rule: loop_cases [where maxKeys = maxKeys and st = st and startAfter = startAfter
        and k = "buildObjectKeyFromEntryWithBucket b e bucket" and delimiter = delimiter
        and pfx = pfx])
    case break
    then show ?thesis by (simp add: loop_break)
  next
    case skip
    then show ?thesis using Cons.IH by (simp add: loop_skip)
  next
    case (fold cp)
    then show ?thesis using Cons.IH by (simp add: loop_fold)
  next
    case plain
    then show ?thesis using Cons.IH by (simp add: loop_plain)
  qed
qed

lemma convert_loop_distinct:
  "convert_loop b bucket pfx delimiter startAfter maxKeys es st = Inr st' \<Longrightarrow>
   distinct (commonPrefixes st) \<Longrightarrow> distinct (commonPrefixes st')"
proof (induction es arbitrary: st)
  case Nil
  then show ?case by simp
next
  case (Cons e es)
  show ?case
  proof (cases rule: loop_cases [where maxKeys = maxKeys and st = st and startAfter = startAfter
        and k = "buildObjectKeyFromEntryWithBucket b e bucket" and delimiter = delimiter
        and pfx = pfx])
    case break
    with Cons.prems show ?thesis by (auto simp add: loop_break)
  next
    case skip
    with Cons.prems Cons.IH [of st] show ?thesis by (simp add: loop_skip)
  next
    case (fold cp)
    with Cons.prems
      Cons.IH [of "if cp \<in> set (commonPrefixes st) then st
                   else st\<lparr>commonPrefixes := commonPrefixes st @ [cp]\<rparr>"]
    show ?thesis by (simp add: loop_fold split: if_splits)
  next
    case plain
    with Cons.prems
      Cons.IH [of "st\<lparr>contents := contents st @
                [\<lparr>Key = buildObjectKeyFromEntryWithBucket b e bucket, obj_Size = Size e,
                  LastModified = GetModifyTime e, ETag = generateETag e\<rparr>],
             count := count st + 1\<rparr>"]
    show ?thesis by (simp add: loop_plain)
  qed
qed


lemma convert_loop_bound:
  "convert_loop b bucket pfx delimiter startAfter maxKeys es st = Inr st' \<Longrightarrow>
   0 < maxKeys \<Longrightarrow> count st \<le> maxKeys \<Longrightarrow>
   count st' \<le> maxKeys
   \<and> int (length (contents st')) - count st' = int (length (contents st)) - count st"
proof (induction es arbitrary: st)
  case Nil
  then show ?case by simp
next
  case (Cons e es)
  show ?case
  proof (cases rule: loop_cases [where maxKeys = maxKeys and st = st and startAfter = startAfter
        and k = "buildObjectKeyFromEntryWithBucket b e bucket" and delimiter = delimiter
        and pfx = pfx])
    case break
    with Cons.prems show ?thesis by (auto simp add: loop_break)
  next
    case skip
    with Cons.prems Cons.IH [of st] show ?thesis by (simp add: loop_skip )
  next
    case (fold cp)
    with Cons.prems
      Cons.IH [of "if cp \<in> set (commonPrefixes st) then st
                   else st\<lparr>commonPrefixes := commonPrefixes st @ [cp]\<rparr>"]
    show ?thesis by (simp add: loop_fold  split: if_splits)
  next
    case plain
    with Cons.prems
      Cons.IH [of "st\<lparr>contents := contents st @
                [\<lparr>Key = buildObjectKeyFromEntryWithBucket b e bucket, obj_Size = Size e,
                  LastModified = GetModifyTime e, ETag = generateETag e\<rparr>],
             count := count st + 1\<rparr>"]
    show ?thesis by (simp add: loop_plain )
  qed
qed

lemma convert_loop_truncated:
  "convert_loop b bucket pfx delimiter startAfter maxKeys es st = Inr st' \<Longrightarrow>
   isTruncated st' \<Longrightarrow> \<not> isTruncated st \<Longrightarrow> 0 < maxKeys \<and> maxKeys \<le> count st'"
proof (induction es arbitrary: st)
  case Nil
  then show ?case by simp
next
  case (Cons e es)
  show ?case
  proof (cases rule: loop_cases [where maxKeys = maxKeys and st = st and startAfter = startAfter
        and k = "buildObjectKeyFromEntryWithBucket b e bucket" and delimiter = delimiter
        and pfx = pfx])
    case break
    with Cons.prems show ?thesis by (auto simp add: loop_break)
  next
    case skip
    with Cons.prems Cons.IH [of st] show ?thesis by (simp add: loop_skip )
  next
    case (fold cp)
    with Cons.prems
      Cons.IH [of "if cp \<in> set (commonPrefixes st) then st
                   else st\<lparr>commonPrefixes := commonPrefixes st @ [cp]\<rparr>"]
    show ?thesis by (simp add: loop_fold  split: if_splits)
  next
    case plain
    with Cons.prems
      Cons.IH [of "st\<lparr>contents := contents st @
                [\<lparr>Key = buildObjectKeyFromEntryWithBucket b e bucket, obj_Size = Size e,
                  LastModified = GetModifyTime e, ETag = generateETag e\<rparr>],
             count := count st + 1\<rparr>"]
    show ?thesis by (simp add: loop_plain )
  qed
qed

lemma convert_loop_untruncated:
  "convert_loop b bucket pfx delimiter startAfter maxKeys es st = Inr st' \<Longrightarrow>
   \<not> isTruncated st' \<Longrightarrow>
   convert_loop b bucket pfx delimiter startAfter 0 es st = Inr st'"
proof (induction es arbitrary: st)
  case Nil
  then show ?case by simp
next
  case (Cons e es)
  show ?case
  proof (cases rule: loop_cases [where maxKeys = maxKeys and st = st and startAfter = startAfter
        and k = "buildObjectKeyFromEntryWithBucket b e bucket" and delimiter = delimiter
        and pfx = pfx])
    case break
    with Cons.prems show ?thesis by (auto simp add: loop_break)
  next
    case skip
    with Cons.prems Cons.IH [of st] show ?thesis by (simp add: loop_skip )
  next
    case (fold cp)
    with Cons.prems
      Cons.IH [of "if cp \<in> set (commonPrefixes st) then st
                   else st\<lparr>commonPrefixes := commonPrefixes st @ [cp]\<rparr>"]
    show ?thesis by (simp add: loop_fold  split: if_splits)
  next
    case plain
    with Cons.prems
      Cons.IH [of "st\<lparr>contents := contents st @
                [\<lparr>Key = buildObjectKeyFromEntryWithBucket b e bucket, obj_Size = Size e,
                  LastModified = GetModifyTime e, ETag = generateETag e\<rparr>],
             count := count st + 1\<rparr>"]
    show ?thesis by (simp add: loop_plain )
  qed
qed

lemma convert_loop_unlimited:
  "convert_loop b bucket pfx delimiter startAfter maxKeys es st = Inr st' \<Longrightarrow>
   maxKeys \<le> 0 \<Longrightarrow>
   isTruncated st' = isTruncated st
   \<and> map Key (contents st') = map Key (contents st) @
       filter (\<lambda>k. \<not> (startAfter \<noteq> [] \<and> k \<le> startAfter)
                 \<and> \<not> (delimiter \<noteq> [] \<and> shouldBeCommonPrefix k pfx delimiter))
         (map (\<lambda>e. buildObjectKeyFromEntryWithBucket b e bucket) es)
   \<and> set (commonPrefixes st') = set (commonPrefixes st) \<union>
       {cp. \<exists>k \<in> set (map (\<lambda>e. buildObjectKeyFromEntryWithBucket b e bucket) es).
              \<not> (startAfter \<noteq> [] \<and> k \<le> startAfter)
              \<and> delimiter \<noteq> [] \<and> shouldBeCommonPrefix k pfx delimiter
              \<and> getCommonPrefix k pfx delimiter = Inr cp}"
proof (induction es arbitrary: st)
  case Nil
  then show ?case by simp
next
  case (Cons e es)
  show ?case
  proof (cases rule: loop_cases [where maxKeys = maxKeys and st = st and startAfter = startAfter
        and k = "buildObjectKeyFromEntryWithBucket b e bucket" and delimiter = delimiter
        and pfx = pfx])
    case break
    with Cons.prems show ?thesis by (auto simp add: loop_break)
  next
    case skip
    with Cons.prems Cons.IH [of st] show ?thesis by (auto simp add: loop_skip)
  next
    case (fold cp)
    with Cons.prems
      Cons.IH [of "if cp \<in> set (commonPrefixes st) then st
                   else st\<lparr>commonPrefixes := commonPrefixes st @ [cp]\<rparr>"]
    show ?thesis by (auto simp add: loop_fold split: if_splits)
  next
    case plain
    with Cons.prems
      Cons.IH [of "st\<lparr>contents := contents st @
                [\<lparr>Key = buildObjectKeyFromEntryWithBucket b e bucket, obj_Size = Size e,
                  LastModified = GetModifyTime e, ETag = generateETag e\<rparr>],
             count := count st + 1\<rparr>"]
    show ?thesis by (auto simp add: loop_plain)
  qed
qed

lemma convert_loop_stop:
  "convert_loop b bucket pfx delimiter startAfter maxKeys es1 st = Inr st1 \<Longrightarrow>
   \<not> isTruncated st1 \<Longrightarrow> 0 < maxKeys \<Longrightarrow> maxKeys \<le> count st1 \<Longrightarrow>
   convert_loop b bucket pfx delimiter startAfter maxKeys (es1 @ e' # es2) st
     = Inr (st1\<lparr>isTruncated := True\<rparr>)"
proof (induction es1 arbitrary: st)
  case Nil
  then show ?case by (simp add: loop_break)
next
  case (Cons e es1)
  show ?case
  proof (cases rule: loop_cases [where maxKeys = maxKeys and st = st and startAfter = startAfter
        and k = "buildObjectKeyFromEntryWithBucket b e bucket" and delimiter = delimiter
        and pfx = pfx])
    case break
    with Cons.prems show ?thesis by (auto simp add: loop_break)
  next
    case skip
    with Cons.prems Cons.IH [of st] show ?thesis by (simp add: loop_skip)
  next
    case (fold cp)
    with Cons.prems
      Cons.IH [of "if cp \<in> set (commonPrefixes st) then st
                   else st\<lparr>commonPrefixes := commonPrefixes st @ [cp]\<rparr>"]
    show ?thesis by (simp add: loop_fold split: if_splits)
  next
    case plain
    with Cons.prems
      Cons.IH [of "st\<lparr>contents := contents st @
                [\<lparr>Key = buildObjectKeyFromEntryWithBucket b e bucket, obj_Size = Size e,
                  LastModified = GetModifyTime e, ETag = generateETag e\<rparr>],
             count := count st + 1\<rparr>"]
    show ?thesis by (simp add: loop_plain)
  qed
qed

lemma conv_result:
  "convertToListObjectsResult b resp bucket pfx delimiter startAfter maxKeys = Inr r \<longleftrightarrow>
   (\<exists>st. convert_loop b bucket pfx delimiter startAfter maxKeys (Entries resp) conv_init = Inr st
      \<and> r = \<lparr>Contents = contents st, CommonPrefixes = commonPrefixes st,
               IsTruncated = isTruncated st, MaxKeys = word_of_int maxKeys,
               Name = bucket, Prefix = pfx, Delimiter = delimiter\<rparr>)"
  by (auto simp add: convertToListObjectsResult_def split: sum.splits)


text \<open>
  Claim C4. With a non-empty delimiter, \<open>shouldBeCommonPrefix\<close> holds exactly when the key
  is the requested prefix, followed by some text, the delimiter and at least one more
  character; the common prefix is then the prefix plus the remainder up to and including
  the first occurrence of the delimiter. The common prefixes of a listing are distinct. In
  a listing without a limit, the plain objects are the keys that are not skipped by the
  cursor and not folded, in order, the common prefixes are those of the folded keys, and a
  key that does not start with the prefix is listed as a plain object.
\<close>

theorem common_prefix_folding:
  assumes "delimiter \<noteq> []"
  shows "(shouldBeCommonPrefix objectKey pfx delimiter \<longleftrightarrow>
            (\<exists>u v. objectKey = pfx @ u @ delimiter @ v \<and> v \<noteq> []))
     \<and> (shouldBeCommonPrefix objectKey pfx delimiter \<longrightarrow>
          (\<exists>u v. objectKey = pfx @ u @ delimiter @ v
             \<and> (\<forall>u' v'. objectKey = pfx @ u' @ delimiter @ v' \<longrightarrow> length u \<le> length u')
             \<and> getCommonPrefix objectKey pfx delimiter = Inr (pfx @ u @ delimiter)))
     \<and> (\<exists>r. convertToListObjectsResult b resp bucket pfx delimiter startAfter maxKeys = Inr r
             \<and> distinct (CommonPrefixes r))
     \<and> (\<exists>r0. convertToListObjectsResult b resp bucket pfx delimiter startAfter 0 = Inr r0
             \<and> map Key (Contents r0) =
                 filter (\<lambda>k. \<not> (startAfter \<noteq> [] \<and> k \<le> startAfter)
                            \<and> \<not> shouldBeCommonPrefix k pfx delimiter)
                   (map (\<lambda>e. buildObjectKeyFromEntryWithBucket b e bucket) (Entries resp))
             \<and> set (CommonPrefixes r0) =
                 {cp. \<exists>k \<in> set (map (\<lambda>e. buildObjectKeyFromEntryWithBucket b e bucket)
                                   (Entries resp)).
                        \<not> (startAfter \<noteq> [] \<and> k \<le> startAfter)
                        \<and> shouldBeCommonPrefix k pfx delimiter
                        \<and> getCommonPrefix k pfx delimiter = Inr cp}
             \<and> (\<forall>k \<in> set (map (\<lambda>e. buildObjectKeyFromEntryWithBucket b e bucket)
                               (Entries resp)).
                   \<not> (startAfter \<noteq> [] \<and> k \<le> startAfter) \<and> \<not> strings_HasPrefix k pfx
                   \<longrightarrow> k \<in> set (map Key (Contents r0))))"
proof (intro conjI)
  show "shouldBeCommonPrefix objectKey pfx delimiter \<longleftrightarrow>
            (\<exists>u v. objectKey = pfx @ u @ delimiter @ v \<and> v \<noteq> [])"
    using assms by (rule shouldBeCommonPrefix_iff)
  show "shouldBeCommonPrefix objectKey pfx delimiter \<longrightarrow>
          (\<exists>u v. objectKey = pfx @ u @ delimiter @ v
             \<and> (\<forall>u' v'. objectKey = pfx @ u' @ delimiter @ v' \<longrightarrow> length u \<le> length u')
             \<and> getCommonPrefix objectKey pfx delimiter = Inr (pfx @ u @ delimiter))"
    using getCommonPrefix_first by blast
next
  obtain st where st:
    "convert_loop b bucket pfx delimiter startAfter maxKeys (Entries resp) conv_init = Inr st"
    using convert_loop_no_panic by blast
  have "distinct (commonPrefixes st)"
    using convert_loop_distinct [OF st] by (simp add: conv_init_def)
  with st show "\<exists>r. convertToListObjectsResult b resp bucket pfx delimiter startAfter maxKeys = Inr r
             \<and> distinct (CommonPrefixes r)"
    by (simp add: conv_result)
next
  let ?keys = "map (\<lambda>e. buildObjectKeyFromEntryWithBucket b e bucket) (Entries resp)"
  obtain st where st:
    "convert_loop b bucket pfx delimiter startAfter 0 (Entries resp) conv_init = Inr st"
    using convert_loop_no_panic by blast
  from convert_loop_unlimited [OF st] assms
  have keys: "map Key (contents st) =
      filter (\<lambda>k. \<not> (startAfter \<noteq> [] \<and> k \<le> startAfter)
                            \<and> \<not> shouldBeCommonPrefix k pfx delimiter) ?keys"
    and cps: "set (commonPrefixes st) =
      {cp. \<exists>k \<in> set ?keys. \<not> (startAfter \<noteq> [] \<and> k \<le> startAfter)
                        \<and> shouldBeCommonPrefix k pfx delimiter
                        \<and> getCommonPrefix k pfx delimiter = Inr cp}"
    by (simp_all add: conv_init_def)
  have np: "\<not> strings_HasPrefix k pfx \<Longrightarrow> \<not> shouldBeCommonPrefix k pfx delimiter" for k
    by (simp add: shouldBeCommonPrefix_def)
  define r0 where "r0 = \<lparr>Contents = contents st, CommonPrefixes = commonPrefixes st,
               IsTruncated = isTruncated st, MaxKeys = word_of_int 0,
               Name = bucket, Prefix = pfx, Delimiter = delimiter\<rparr>"
  have c: "convertToListObjectsResult b resp bucket pfx delimiter startAfter 0 = Inr r0"
    using st by (simp add: conv_result r0_def)
  have keys': "map Key (Contents r0) =
      filter (\<lambda>k. \<not> (startAfter \<noteq> [] \<and> k \<le> startAfter)
                            \<and> \<not> shouldBeCommonPrefix k pfx delimiter) ?keys"
    using keys by (simp add: r0_def)
  have cps': "set (CommonPrefixes r0) =
      {cp. \<exists>k \<in> set ?keys. \<not> (startAfter \<noteq> [] \<and> k \<le> startAfter)
                        \<and> shouldBeCommonPrefix k pfx delimiter
                        \<and> getCommonPrefix k pfx delimiter = Inr cp}"
    using cps by (simp add: r0_def)
  have plain: "\<forall>k \<in> set ?keys.
      \<not> (startAfter \<noteq> [] \<and> k \<le> startAfter) \<and> \<not> strings_HasPrefix k pfx
        \<longrightarrow> k \<in> set (map Key (Contents r0))"
    unfolding keys' using np by auto
  from c keys' cps' plain
  show "\<exists>r0. convertToListObjectsResult b resp bucket pfx delimiter startAfter 0 = Inr r0
             \<and> map Key (Contents r0) =
                 filter (\<lambda>k. \<not> (startAfter \<noteq> [] \<and> k \<le> startAfter)
                            \<and> \<not> shouldBeCommonPrefix k pfx delimiter) ?keys
             \<and> set (CommonPrefixes r0) =
                 {cp. \<exists>k \<in> set ?keys.
                        \<not> (startAfter \<noteq> [] \<and> k \<le> startAfter)
                        \<and> shouldBeCommonPrefix k pfx delimiter
                        \<and> getCommonPrefix k pfx delimiter = Inr cp}
             \<and> (\<forall>k \<in> set ?keys.
                   \<not> (startAfter \<noteq> [] \<and> k \<le> startAfter) \<and> \<not> strings_HasPrefix k pfx
                   \<longrightarrow> k \<in> set (map Key (Contents r0)))"
    by blast
qed


theorem common_prefix_folding_witness:
  "shouldBeCommonPrefix ''a/b/c.txt'' [] ''/''
   \<and> getCommonPrefix ''a/b/c.txt'' [] ''/'' = Inr ''a/''
   \<and> convertToListObjectsResult (backend_with [])
        \<lparr>Entries = [file_entry ''/a/b/c.txt'' [] [], file_entry [] ''a'' ''d.txt''], Total = 2\<rparr>
        ''bucket'' [] ''/'' [] 1000
      = Inr \<lparr>Contents = [], CommonPrefixes = [''a/''], IsTruncated = False, MaxKeys = 1000,
             Name = ''bucket'', Prefix = [], Delimiter = ''/''\<rparr>"
proof -
  have d: "''/'' \<noteq> []" by simp
  have e1: "shouldBeCommonPrefix ''a/b/c.txt'' [] ''/''" by code_simp
  have e2: "getCommonPrefix ''a/b/c.txt'' [] ''/'' = Inr ''a/''" by code_simp
  have e3: "convertToListObjectsResult (backend_with [])
        \<lparr>Entries = [file_entry ''/a/b/c.txt'' [] [], file_entry [] ''a'' ''d.txt''], Total = 2\<rparr>
        ''bucket'' [] ''/'' [] 1000
      = Inr \<lparr>Contents = [], CommonPrefixes = [''a/''], IsTruncated = False, MaxKeys = 1000,
             Name = ''bucket'', Prefix = [], Delimiter = ''/''\<rparr>" by code_simp
  from common_prefix_folding [OF d, of "''a/b/c.txt''" "[]" "backend_with []"
      "\<lparr>Entries = [file_entry ''/a/b/c.txt'' [] [], file_entry [] ''a'' ''d.txt''], Total = 2\<rparr>"
      "''bucket''" "[]" 1000] e1 e2 e3
  show ?thesis by blast
qed


text \<open>
  Claim C3, as the code has it. The conversion never panics. With \<open>maxKeys > 0\<close> at most
  \<open>maxKeys\<close> plain objects are returned. The truncation flag is set only when \<open>maxKeys\<close>
  objects have been emitted, and it is set exactly when an entry is still to be processed
  at that point: the result is then the result for the entries before it, common prefixes
  included, with the flag set. When the flag is not set nothing was cut: objects and common
  prefixes are those of the listing without a limit. With \<open>maxKeys = 0\<close> the flag stays
  false and every entry that is not skipped is an object or folded.
\<close>

theorem max_keys_truncation:
  "\<exists>r r0. convertToListObjectsResult b resp bucket pfx delimiter startAfter maxKeys = Inr r
     \<and> convertToListObjectsResult b resp bucket pfx delimiter startAfter 0 = Inr r0
     \<and> (0 < maxKeys \<longrightarrow> int (length (Contents r)) \<le> maxKeys)
     \<and> (IsTruncated r \<longrightarrow> 0 < maxKeys \<and> int (length (Contents r)) = maxKeys)
     \<and> (\<not> IsTruncated r \<longrightarrow>
           Contents r = Contents r0 \<and> CommonPrefixes r = CommonPrefixes r0)
     \<and> (\<forall>es1 e es2 t r1.
           Entries resp = es1 @ e # es2
           \<and> convertToListObjectsResult b \<lparr>Entries = es1, Total = t\<rparr> bucket pfx delimiter
                startAfter maxKeys = Inr r1
           \<and> \<not> IsTruncated r1 \<and> 0 < maxKeys \<and> int (length (Contents r1)) = maxKeys
           \<longrightarrow> r = r1\<lparr>IsTruncated := True\<rparr>)
     \<and> \<not> IsTruncated r0
     \<and> map Key (Contents r0) =
         filter (\<lambda>k. \<not> (startAfter \<noteq> [] \<and> k \<le> startAfter)
                    \<and> \<not> (delimiter \<noteq> [] \<and> shouldBeCommonPrefix k pfx delimiter))
           (map (\<lambda>e. buildObjectKeyFromEntryWithBucket b e bucket) (Entries resp))"
proof -
  let ?L = "convert_loop b bucket pfx delimiter startAfter"
  let ?R = "\<lambda>mk st. \<lparr>Contents = contents st, CommonPrefixes = commonPrefixes st,
               IsTruncated = isTruncated st, MaxKeys = word_of_int mk,
               Name = bucket, Prefix = pfx, Delimiter = delimiter\<rparr>"
  obtain st where st: "?L maxKeys (Entries resp) conv_init = Inr st"
    using convert_loop_no_panic by blast
  obtain st0 where st0: "?L 0 (Entries resp) conv_init = Inr st0"
    using convert_loop_no_panic by blast
  have r: "convertToListObjectsResult b resp bucket pfx delimiter startAfter maxKeys
      = Inr (?R maxKeys st)"
    using st by (simp add: conv_result)
  have r0: "convertToListObjectsResult b resp bucket pfx delimiter startAfter 0
      = Inr (?R 0 st0)"
    using st0 by (simp add: conv_result)
  have len: "0 < maxKeys \<Longrightarrow> count st \<le> maxKeys \<and> int (length (contents st)) = count st"
    using convert_loop_bound [OF st] by (simp add: conv_init_def)
  have bound: "0 < maxKeys \<longrightarrow> int (length (contents st)) \<le> maxKeys"
    using len by simp
  have trunc: "isTruncated st \<longrightarrow> 0 < maxKeys \<and> int (length (contents st)) = maxKeys"
  proof
    assume t: "isTruncated st"
    from convert_loop_truncated [OF st t] have "0 < maxKeys \<and> maxKeys \<le> count st"
      by (simp add: conv_init_def)
    with len show "0 < maxKeys \<and> int (length (contents st)) = maxKeys" by simp
  qed
  have same: "\<not> isTruncated st \<longrightarrow> contents st = contents st0 \<and> commonPrefixes st = commonPrefixes st0"
  proof
    assume "\<not> isTruncated st"
    from convert_loop_untruncated [OF st this] st0 have "st = st0" by simp
    then show "contents st = contents st0 \<and> commonPrefixes st = commonPrefixes st0" by simp
  qed
  have stop: "\<forall>es1 e es2 t r1.
           Entries resp = es1 @ e # es2
           \<and> convertToListObjectsResult b \<lparr>Entries = es1, Total = t\<rparr> bucket pfx delimiter
                startAfter maxKeys = Inr r1
           \<and> \<not> IsTruncated r1 \<and> 0 < maxKeys \<and> int (length (Contents r1)) = maxKeys
           \<longrightarrow> ?R maxKeys st = r1\<lparr>IsTruncated := True\<rparr>"
  proof (intro allI impI, elim conjE)
    fix es1 e es2 t r1
    assume es: "Entries resp = es1 @ e # es2"
      and r1: "convertToListObjectsResult b \<lparr>Entries = es1, Total = t\<rparr> bucket pfx delimiter
                startAfter maxKeys = Inr r1"
      and nt: "\<not> IsTruncated r1" and pos: "0 < maxKeys"
      and full: "int (length (Contents r1)) = maxKeys"
    from r1 obtain st1 where st1: "?L maxKeys es1 conv_init = Inr st1"
      and r1eq: "r1 = ?R maxKeys st1"
      by (auto simp add: conv_result)
    from convert_loop_bound [OF st1 pos] have "int (length (contents st1)) = count st1"
      using pos by (simp add: conv_init_def)
    with full r1eq have c: "maxKeys \<le> count st1" by simp
    from nt r1eq have nt1: "\<not> isTruncated st1" by simp
    from convert_loop_stop [OF st1 nt1 pos c, of e es2] st es
    have "st = st1\<lparr>isTruncated := True\<rparr>" by simp
    with r1eq show "?R maxKeys st = r1\<lparr>IsTruncated := True\<rparr>" by simp
  qed
  from convert_loop_unlimited [OF st0]
  have unl: "\<not> isTruncated st0"
    and keys: "map Key (contents st0) =
         filter (\<lambda>k. \<not> (startAfter \<noteq> [] \<and> k \<le> startAfter)
                    \<and> \<not> (delimiter \<noteq> [] \<and> shouldBeCommonPrefix k pfx delimiter))
           (map (\<lambda>e. buildObjectKeyFromEntryWithBucket b e bucket) (Entries resp))"
    by (simp_all add: conv_init_def)
  show ?thesis
    apply (rule exI [of _ "?R maxKeys st"])
    apply (rule exI [of _ "?R 0 st0"])
    using r r0 bound trunc same stop unl keys
    apply (simp only: ListObjectsResult.simps)
    apply blast
    done
qed

theorem max_keys_truncation_witness:
  "convertToListObjectsResult (backend_with [])
     \<lparr>Entries = [file_entry [] [] ''a'', file_entry [] [] ''b'', file_entry [] [] ''c'',
                 file_entry [] [] ''d'', file_entry [] [] ''e''], Total = 5\<rparr>
     ''bucket'' [] [] [] 2
   = Inr \<lparr>Contents =
            [\<lparr>Key = ''a'', obj_Size = 0, LastModified = ZeroTime, ETag = ''\"0-0\"''\<rparr>,
             \<lparr>Key = ''b'', obj_Size = 0, LastModified = ZeroTime, ETag = ''\"0-0\"''\<rparr>],
          CommonPrefixes = [], IsTruncated = True, MaxKeys = 2,
          Name = ''bucket'', Prefix = [], Delimiter = []\<rparr>"
proof -
  have e: "convertToListObjectsResult (backend_with [])
     \<lparr>Entries = [file_entry [] [] ''a'', file_entry [] [] ''b'', file_entry [] [] ''c'',
                 file_entry [] [] ''d'', file_entry [] [] ''e''], Total = 5\<rparr>
     ''bucket'' [] [] [] 2
   = Inr \<lparr>Contents =
            [\<lparr>Key = ''a'', obj_Size = 0, LastModified = ZeroTime, ETag = ''\"0-0\"''\<rparr>,
             \<lparr>Key = ''b'', obj_Size = 0, LastModified = ZeroTime, ETag = ''\"0-0\"''\<rparr>],
          CommonPrefixes = [], IsTruncated = True, MaxKeys = 2,
          Name = ''bucket'', Prefix = [], Delimiter = []\<rparr>"
    by code_simp
  from max_keys_truncation [of "backend_with []"
      "\<lparr>Entries = [file_entry [] [] ''a'', file_entry [] [] ''b'', file_entry [] [] ''c'',
                 file_entry [] [] ''d'', file_entry [] [] ''e''], Total = 5\<rparr>"
      "''bucket''" "[]" "[]" "[]" 2] e
  show ?thesis by blast
qed

text \<open>
  Claim C3 as stated sets the truncation flag once the number of objects reaches
  \<open>maxKeys\<close>. With two entries and \<open>maxKeys = 2\<close> both become objects, the loop ends with
  the entries, and the flag is false.
\<close>

theorem exact_fit_counterexample:
  "convertToListObjectsResult (backend_with [])
     \<lparr>Entries = [file_entry [] [] ''a'', file_entry [] [] ''b''], Total = 2\<rparr>
     ''bucket'' [] [] [] 2
   = Inr \<lparr>Contents =
            [\<lparr>Key = ''a'', obj_Size = 0, LastModified = ZeroTime, ETag = ''\"0-0\"''\<rparr>,
             \<lparr>Key = ''b'', obj_Size = 0, LastModified = ZeroTime, ETag = ''\"0-0\"''\<rparr>],
          CommonPrefixes = [], IsTruncated = False, MaxKeys = 2,
          Name = ''bucket'', Prefix = [], Delimiter = []\<rparr>"
  by code_simp

end
